theory Spec2Isabelle
  imports Complex_Main "HOL-Library.Monad_Syntax"
begin

section \<open>Python's decimal arithmetic, as \<open>tools/services.py\<close> uses it\<close>

text \<open>
  The cost engine computes with \<open>decimal.Decimal\<close> under the default context:
  28 significant digits, rounding \<open>ROUND_HALF_EVEN\<close>, exponents between
  \<open>Emin = -999999\<close> and \<open>Emax = 999999\<close>, and the traps \<open>InvalidOperation\<close>,
  \<open>DivisionByZero\<close> and \<open>Overflow\<close> enabled, so these three conditions raise.
  A finite decimal is a sign, a coefficient and an exponent; its value is
  \<open>(-1)^sign * coeff * 10^expo\<close>. Only finite decimals are modelled: with the traps
  enabled no operation on finite operands returns an infinity or a NaN.
\<close>

datatype decimal = Decimal (sign: bool) (coeff: nat) (expo: int)

text \<open>
  A raised exception is the value \<open>None\<close>; which exception Python raises is noted beside
  each \<open>None\<close>. The steps of a computation are chained with the option monad, so the
  first exception ends it, as in the source.
\<close>

datatype rounding = ROUND_HALF_UP | ROUND_HALF_EVEN

definition prec :: nat where "prec = 28"
definition Emax :: int where "Emax = 999999"
definition Emin :: int where "Emin = - 999999"
definition Etiny :: int where "Etiny = Emin - int prec + 1"
definition Etop :: int where "Etop = Emax - int prec + 1"

text \<open>\<open>ndigits c\<close> is \<open>len(str(c))\<close>: the number of decimal digits of a coefficient.\<close>

fun ndigits :: "nat \<Rightarrow> nat" where
  "ndigits n = (if n < 10 then 1 else Suc (ndigits (n div 10)))"

declare ndigits.simps [simp del]

definition adjusted :: "decimal \<Rightarrow> int" where
  "adjusted d = expo d + int (ndigits (coeff d)) - 1"

definition is_zero :: "decimal \<Rightarrow> bool" where
  "is_zero d = (coeff d = 0)"

text \<open>
  Dropping the last \<open>k\<close> digits of a coefficient. Half-up rounds the magnitude up when
  the first dropped digit is 5 or more; half-even rounds an exact half to the even
  neighbour.
\<close>

definition round_coeff :: "rounding \<Rightarrow> nat \<Rightarrow> nat \<Rightarrow> nat" where
  "round_coeff rm c k =
     (if k = 0 then c
      else let q = c div 10 ^ k; r = c mod 10 ^ k; h = 5 * 10 ^ (k - 1)
           in case rm of
                ROUND_HALF_UP \<Rightarrow> (if h \<le> r then q + 1 else q)
              | ROUND_HALF_EVEN \<Rightarrow> (if h < r \<or> (r = h \<and> odd q) then q + 1 else q))"

text \<open>\<open>Decimal._rescale\<close>: the same value at exponent \<open>e\<close>, rounded when digits are lost.\<close>

definition rescale :: "int \<Rightarrow> rounding \<Rightarrow> decimal \<Rightarrow> decimal" where
  "rescale e rm d =
     (if coeff d = 0 then Decimal (sign d) 0 e
      else if e \<le> expo d then Decimal (sign d) (coeff d * 10 ^ nat (expo d - e)) e
      else Decimal (sign d) (round_coeff rm (coeff d) (nat (e - expo d))) e)"

text \<open>
  \<open>Decimal._fix\<close>: every arithmetic result is rounded to the context. A zero keeps its
  sign and gets its exponent clamped; a result above \<open>Emax\<close> raises \<open>Overflow\<close>; a
  coefficient of more than 28 digits is rounded half-even.
\<close>

definition fix_ctx :: "decimal \<Rightarrow> decimal option" where
  "fix_ctx d =
     (if coeff d = 0 then Some (Decimal (sign d) 0 (min (max (expo d) Etiny) Emax))
      else let exp_min0 = int (ndigits (coeff d)) + expo d - int prec
           in if Etop < exp_min0 then None \<comment> \<open>Overflow\<close>
              else let exp_min = max exp_min0 Etiny
                   in if expo d < exp_min then
                        let c = round_coeff ROUND_HALF_EVEN (coeff d) (nat (exp_min - expo d));
                            c' = (if prec < ndigits c then c div 10 else c);
                            e' = (if prec < ndigits c then exp_min + 1 else exp_min)
                        in if Etop < e' then None \<comment> \<open>Overflow\<close>
                           else Some (Decimal (sign d) c' e')
                      else Some d)"

text \<open>The signed coefficient of \<open>d\<close> written at an exponent \<open>e \<le> expo d\<close>.\<close>

definition scaled :: "int \<Rightarrow> decimal \<Rightarrow> int" where
  "scaled e d = (if sign d then - 1 else 1) * int (coeff d) * 10 ^ nat (expo d - e)"

definition negate :: "decimal \<Rightarrow> decimal" where
  "negate d = Decimal (\<not> sign d) (coeff d) (expo d)"

text \<open>
  Addition is the exact sum at the smaller exponent, then \<open>fix_ctx\<close>. A zero sum of two
  zeros is negative only when both are; a zero sum of opposite numbers is positive.
\<close>

definition add :: "decimal \<Rightarrow> decimal \<Rightarrow> decimal option" where
  "add x y =
     (let e = min (expo x) (expo y);
          t = scaled e x + scaled e y;
          s = (if t = 0 then (coeff x = 0 \<and> coeff y = 0 \<and> sign x \<and> sign y) else t < 0)
      in fix_ctx (Decimal s (nat \<bar>t\<bar>) e))"

definition sub :: "decimal \<Rightarrow> decimal \<Rightarrow> decimal option" where
  "sub x y = add x (negate y)"

definition mul :: "decimal \<Rightarrow> decimal \<Rightarrow> decimal option" where
  "mul x y = fix_ctx (Decimal (sign x \<noteq> sign y) (coeff x * coeff y) (expo x + expo y))"

text \<open>
  \<open>Decimal.__truediv__\<close>: the quotient is computed to \<open>prec + 1\<close> digits; an inexact
  quotient ending in 0 or 5 is nudged so that \<open>fix_ctx\<close> rounds it correctly, an exact one
  is brought as close to the ideal exponent as its trailing zeros allow.
\<close>

function strip_zeros :: "nat \<Rightarrow> int \<Rightarrow> int \<Rightarrow> nat \<times> int" where
  "strip_zeros c e ideal =
     (if e < ideal \<and> c mod 10 = 0 \<and> c \<noteq> 0 then strip_zeros (c div 10) (e + 1) ideal
      else (c, e))"
  by pat_completeness auto
termination
  by (relation "measure (\<lambda>(c, e, ideal). c)") auto

declare strip_zeros.simps [simp del]

definition divide_dec :: "decimal \<Rightarrow> decimal \<Rightarrow> decimal option" where
  "divide_dec x y =
     (let s = (sign x \<noteq> sign y) in
      if coeff y = 0 then None \<comment> \<open>DivisionByZero, or InvalidOperation for 0/0\<close>
      else if coeff x = 0 then fix_ctx (Decimal s 0 (expo x - expo y))
      else
        let shift = int (ndigits (coeff y)) - int (ndigits (coeff x)) + int prec + 1;
            e = expo x - expo y - shift;
            num = (if 0 \<le> shift then coeff x * 10 ^ nat shift else coeff x);
            den = (if 0 \<le> shift then coeff y else coeff y * 10 ^ nat (- shift));
            q = num div den;
            r = num mod den
        in if r \<noteq> 0 then fix_ctx (Decimal s (if q mod 5 = 0 then q + 1 else q) e)
           else case strip_zeros q e (expo x - expo y) of
                  (q', e') \<Rightarrow> fix_ctx (Decimal s q' e'))"

text \<open>
  \<open>Decimal.quantize\<close>: the value at the exponent of \<open>q\<close>; it raises
  \<open>InvalidOperation\<close> when the result would need more than 28 digits.
\<close>

definition quantize :: "decimal \<Rightarrow> decimal \<Rightarrow> rounding \<Rightarrow> decimal option" where
  "quantize d q rm =
     (if \<not> (Etiny \<le> expo q \<and> expo q \<le> Emax) then None \<comment> \<open>InvalidOperation\<close>
      else if coeff d = 0 then fix_ctx (Decimal (sign d) 0 (expo q))
      else if Emax < adjusted d then None \<comment> \<open>InvalidOperation\<close>
      else if int prec < adjusted d - expo q + 1 then None \<comment> \<open>InvalidOperation\<close>
      else let ans = rescale (expo q) rm d
           in if Emax < adjusted ans then None \<comment> \<open>InvalidOperation\<close>
              else if prec < ndigits (coeff ans) then None \<comment> \<open>InvalidOperation\<close>
              else fix_ctx ans)"

text \<open>Comparisons are by value; \<open>max a b\<close> is Python's builtin: \<open>b\<close> only when \<open>b > a\<close>.\<close>

definition dec_less :: "decimal \<Rightarrow> decimal \<Rightarrow> bool" where
  "dec_less x y = (let e = min (expo x) (expo y) in scaled e x < scaled e y)"

definition dec_le :: "decimal \<Rightarrow> decimal \<Rightarrow> bool" where
  "dec_le x y = (let e = min (expo x) (expo y) in scaled e x \<le> scaled e y)"

definition dec_eq :: "decimal \<Rightarrow> decimal \<Rightarrow> bool" where
  "dec_eq x y = (let e = min (expo x) (expo y) in scaled e x = scaled e y)"

definition dec_max :: "decimal \<Rightarrow> decimal \<Rightarrow> decimal" where
  "dec_max a b = (if dec_less a b then b else a)"

definition of_int_dec :: "int \<Rightarrow> decimal" where
  "of_int_dec n = Decimal (n < 0) (nat \<bar>n\<bar>) 0"

text \<open>The rational number a decimal denotes.\<close>

definition dval :: "decimal \<Rightarrow> rat" where
  "dval d = (if sign d then - 1 else 1) * of_nat (coeff d) * 10 powi expo d"


section \<open>Python values and conversions\<close>

text \<open>
  The engine reads its input from a dictionary whose values are what the form's cleaned
  data holds: \<open>None\<close>, integers, strings and decimals.
\<close>

datatype pyval = PNone | PInt int | PStr string | PDec decimal

text \<open>
  \<open>data.get(key, default)\<close> and \<open>data.get(key)\<close>: a missing key reads as the default,
  which is \<open>None\<close> when none is given.
\<close>

definition dget_default :: "(string \<rightharpoonup> pyval) \<Rightarrow> string \<Rightarrow> pyval \<Rightarrow> pyval" where
  "dget_default data k d = (case data k of None \<Rightarrow> d | Some v \<Rightarrow> v)"

definition dget :: "(string \<rightharpoonup> pyval) \<Rightarrow> string \<Rightarrow> pyval" where
  "dget data k = dget_default data k PNone"

subsection \<open>Numeric strings\<close>

text \<open>
  Strings are modelled over ASCII. \<open>str.strip()\<close> removes the characters for which
  \<open>isspace\<close> holds: codes 9 to 13 and 28 to 32.
\<close>

definition is_space :: "char \<Rightarrow> bool" where
  "is_space c = (let n = (of_char c :: nat) in (9 \<le> n \<and> n \<le> 13) \<or> (28 \<le> n \<and> n \<le> 32))"

definition strip :: "string \<Rightarrow> string" where
  "strip s = rev (dropWhile is_space (rev (dropWhile is_space s)))"

definition is_digit :: "char \<Rightarrow> bool" where
  "is_digit c = (let n = (of_char c :: nat) in 48 \<le> n \<and> n \<le> 57)"

definition lower :: "char \<Rightarrow> char" where
  "lower c = (let n = (of_char c :: nat) in if 65 \<le> n \<and> n \<le> 90 then char_of (n + 32) else c)"

definition nat_of_digits :: "string \<Rightarrow> nat" where
  "nat_of_digits s = foldl (\<lambda>n c. 10 * n + (of_char c - 48)) 0 s"

definition split_sign :: "string \<Rightarrow> bool \<times> string" where
  "split_sign s =
     (case s of
        [] \<Rightarrow> (False, [])
      | c # r \<Rightarrow> if c = CHR ''-'' then (True, r) else if c = CHR ''+'' then (False, r) else (False, s))"

text \<open>The spellings of infinities and NaNs, after the sign, in lower case.\<close>

definition is_special :: "string \<Rightarrow> bool" where
  "is_special low =
     (low = ''inf'' \<or> low = ''infinity''
      \<or> (take 3 low = ''nan'' \<and> list_all is_digit (drop 3 low))
      \<or> (take 4 low = ''snan'' \<and> list_all is_digit (drop 4 low)))"

text \<open>
  \<open>Decimal(s)\<close> for a string: surrounding whitespace is stripped, underscores are
  removed, and the rest must be an optional sign, digits with an optional fractional
  part (at least one digit in all), and an optional exponent. The conversion is exact:
  the context's precision does not apply. Anything else raises \<open>InvalidOperation\<close>,
  except the spellings of infinities and NaNs: Python accepts them, this model of finite
  decimals stops there.
\<close>

definition Decimal_of_string :: "string \<Rightarrow> decimal option" where
  "Decimal_of_string s =
     (case split_sign (filter (\<lambda>c. c \<noteq> CHR ''_'') (strip s)) of (sg, body) \<Rightarrow>
      if is_special (map lower body) then None \<comment> \<open>an infinity or a NaN: not modelled\<close>
      else
        let ip = takeWhile is_digit body;
            r1 = dropWhile is_digit body;
            fp = (case r1 of [] \<Rightarrow> [] | c # r \<Rightarrow> if c = CHR ''.'' then takeWhile is_digit r else []);
            r2 = (case r1 of [] \<Rightarrow> [] | c # r \<Rightarrow> if c = CHR ''.'' then dropWhile is_digit r else r1)
        in if ip = [] \<and> fp = [] then None \<comment> \<open>InvalidOperation\<close>
           else case r2 of
                  [] \<Rightarrow> Some (Decimal sg (nat_of_digits (ip @ fp)) (- int (length fp)))
                | c # r \<Rightarrow>
                    if lower c = CHR ''e'' then
                      (case split_sign r of (es, ed) \<Rightarrow>
                         if ed \<noteq> [] \<and> list_all is_digit ed then
                           Some (Decimal sg (nat_of_digits (ip @ fp))
                                  ((if es then - 1 else 1) * int (nat_of_digits ed) - int (length fp)))
                         else None \<comment> \<open>InvalidOperation\<close>)
                    else None \<comment> \<open>InvalidOperation\<close>)"

text \<open>
  \<open>int(s)\<close> for a string: stripped, an optional sign, then digits in which single
  underscores may separate digits. Anything else raises \<open>ValueError\<close>.
\<close>

fun int_body_ok :: "string \<Rightarrow> bool" where
  "int_body_ok [] = False"
| "int_body_ok [c] = is_digit c"
| "int_body_ok (c # d # r) =
     (is_digit c \<and> (if d = CHR ''_'' then int_body_ok r else int_body_ok (d # r)))"

definition int_of_string :: "string \<Rightarrow> int option" where
  "int_of_string s =
     (case split_sign (strip s) of (sg, body) \<Rightarrow>
      if int_body_ok body then
        Some ((if sg then - 1 else 1) * int (nat_of_digits (filter (\<lambda>c. c \<noteq> CHR ''_'') body)))
      else None \<comment> \<open>ValueError\<close>)"

text \<open>
  \<open>Decimal(str(v))\<close>. \<open>str(None)\<close> is \<open>"None"\<close>, which is no number; the string of an
  integer or of a finite decimal reads back as that same integer or decimal.
\<close>

definition Decimal_of_str :: "pyval \<Rightarrow> decimal option" where
  "Decimal_of_str v =
     (case v of
        PNone \<Rightarrow> None \<comment> \<open>InvalidOperation\<close>
      | PInt n \<Rightarrow> Some (of_int_dec n)
      | PStr s \<Rightarrow> Decimal_of_string s
      | PDec d \<Rightarrow> Some d)"

text \<open>\<open>int(v)\<close>: \<open>None\<close> raises \<open>TypeError\<close>; a decimal is truncated towards zero.\<close>

definition py_int :: "pyval \<Rightarrow> int option" where
  "py_int v =
     (case v of
        PNone \<Rightarrow> None \<comment> \<open>TypeError\<close>
      | PInt n \<Rightarrow> Some n
      | PStr s \<Rightarrow> int_of_string s
      | PDec d \<Rightarrow>
          Some ((if sign d then - 1 else 1) *
               (if 0 \<le> expo d then int (coeff d) * 10 ^ nat (expo d)
                else int (coeff d) div 10 ^ nat (- expo d))))"

section \<open>The decimal coercion utility\<close>

text \<open>
  \<^verbatim>\<open>
  def _safe_decimal(value):
      if value in (None, "", 0):
          return Decimal("0")
      if isinstance(value, Decimal):
          return value
      return Decimal(str(value))
  \<close>
  Membership in the tuple is by equality: a decimal equals the integer 0 when its
  coefficient is zero, whatever its sign and exponent.
\<close>

definition empty_like :: "pyval \<Rightarrow> bool" where
  "empty_like v =
     (case v of PNone \<Rightarrow> True | PStr s \<Rightarrow> s = [] | PInt n \<Rightarrow> n = 0 | PDec d \<Rightarrow> coeff d = 0)"

definition safe_decimal :: "pyval \<Rightarrow> decimal option" where
  "safe_decimal v =
     (if empty_like v then Some (Decimal False 0 0)
      else case v of
             PDec d \<Rightarrow> Some d
           | _ \<Rightarrow> Decimal_of_str v)"

section \<open>The amortized loan scheduler\<close>

text \<open>
  \<open>_calculate_finance_schedule\<close>. The only operation of the \<open>decimal\<close> library whose
  result is not the correctly rounded exact value in every implementation is the power
  \<open>**\<close>; the scheduler takes it as the parameter \<open>pw\<close>. The first \<open>quantize\<close> has no
  rounding argument, so it uses the context's half-even rounding.
\<close>

text \<open>\<open>Decimal("0.01")\<close>, and \<open>x.quantize(Decimal("0.01"), rounding=ROUND_HALF_UP)\<close>.\<close>

definition cent :: decimal where
  "cent = Decimal False 1 (- 2)"

abbreviation q2 :: "decimal \<Rightarrow> decimal option" where
  "q2 d \<equiv> quantize d cent ROUND_HALF_UP"

record schedule =
  monthly_payment :: decimal
  total_paid :: decimal

definition calculate_finance_schedule ::
  "(decimal \<Rightarrow> int \<Rightarrow> decimal option) \<Rightarrow> decimal \<Rightarrow> decimal \<Rightarrow> int \<Rightarrow> schedule option" where
  "calculate_finance_schedule pw principal0 interest_rate_percent term_months = do {
     principal \<leftarrow> quantize principal0 cent ROUND_HALF_EVEN;
     if term_months \<le> 0 \<or> dec_le principal (of_int_dec 0) then
       Some \<lparr>monthly_payment = Decimal False 0 0, total_paid = Decimal False 0 0\<rparr>
     else do {
       r100 \<leftarrow> divide_dec interest_rate_percent (Decimal False 100 0);
       monthly_rate \<leftarrow> divide_dec r100 (Decimal False 12 0);
       payment \<leftarrow>
         (if dec_eq monthly_rate (of_int_dec 0) then
            divide_dec principal (of_int_dec term_months)
          else do {
            base \<leftarrow> add (of_int_dec 1) monthly_rate;
            factor \<leftarrow> pw base term_months;
            rf \<leftarrow> mul monthly_rate factor;
            prf \<leftarrow> mul principal rf;
            fm1 \<leftarrow> sub factor (of_int_dec 1);
            divide_dec prf fm1
          });
       total \<leftarrow> mul payment (of_int_dec term_months);
       mp \<leftarrow> q2 payment;
       tp \<leftarrow> q2 total;
       Some \<lparr>monthly_payment = mp, total_paid = tp\<rparr>
     }
   }"

text \<open>
  A power to stand for \<open>pw\<close> where a closed term is needed: the exact power of a
  positive integer exponent, rounded to the context.
\<close>

definition power_rounded :: "decimal \<Rightarrow> int \<Rightarrow> decimal option" where
  "power_rounded b n =
     (if n \<le> 0 then None \<comment> \<open>not modelled: the scheduler asks for a positive exponent only\<close>
      else fix_ctx (Decimal (sign b \<and> odd n) (coeff b ^ nat n) (expo b * n)))"

section \<open>The cost estimation engine\<close>

text \<open>
  \<open>estimate_car_cost\<close> returns a dictionary with seven fixed keys; two of its values are
  dictionaries themselves. The steps follow the source line by line, each decimal
  operation in the order Python evaluates it.
\<close>

record estimate =
  total_cost :: decimal
  monthly_cost :: decimal
  annual_recurring_total :: decimal
  breakdown :: "string \<rightharpoonup> decimal"
  annual_fuel_cost :: decimal
  annual_electric_cost :: decimal
  acquisition_breakdown :: "string \<rightharpoonup> decimal"

text \<open>
  Lines 165 to 203: the acquisition total and its sub-breakdown, by purchase type. Any type
  other than \<open>"cash"\<close>, \<open>"finance"\<close> and \<open>"lease"\<close> takes the last branch, which is the
  cash computation again.
\<close>

definition acquisition ::
  "(decimal \<Rightarrow> int \<Rightarrow> decimal option) \<Rightarrow> (string \<rightharpoonup> pyval) \<Rightarrow> decimal \<Rightarrow> decimal \<Rightarrow> decimal
     \<Rightarrow> (decimal \<times> (string \<rightharpoonup> decimal)) option" where
  "acquisition pw data taxable_base tax_amount tax_rate =
     (let purchase_type = dget data ''purchase_type'' in
      if purchase_type = PStr ''cash'' then do {
        acquisition_total \<leftarrow> add taxable_base tax_amount;
        Some (acquisition_total, [''Upfront payment'' \<mapsto> acquisition_total])
      }
      else if purchase_type = PStr ''finance'' then do {
        down_payment \<leftarrow> safe_decimal (dget data ''finance_down_payment'');
        net_principal \<leftarrow> sub taxable_base down_payment;
        let principal = dec_max net_principal (Decimal False 0 0);
        financed \<leftarrow> add principal tax_amount;
        interest_rate \<leftarrow> safe_decimal (dget data ''finance_interest_rate'');
        term_months \<leftarrow> py_int (dget data ''finance_term_months'');
        schedule \<leftarrow> calculate_finance_schedule pw financed interest_rate term_months;
        acquisition_total \<leftarrow> add (total_paid schedule) down_payment;
        Some (acquisition_total,
              [''Down payment'' \<mapsto> down_payment,
               ''Financed total'' \<mapsto> total_paid schedule,
               ''Taxes'' \<mapsto> tax_amount])
      }
      else if purchase_type = PStr ''lease'' then do {
        lease_term \<leftarrow> py_int (dget data ''lease_term_months'');
        lease_payment \<leftarrow> safe_decimal (dget data ''lease_monthly_payment'');
        drive_off \<leftarrow> safe_decimal (dget data ''lease_drive_off_cost'');
        payments \<leftarrow> mul lease_payment (of_int_dec lease_term);
        lease_total \<leftarrow> add payments drive_off;
        raw_lease_tax \<leftarrow> mul lease_total tax_rate;
        tax_on_lease \<leftarrow> q2 raw_lease_tax;
        acquisition_total \<leftarrow> add lease_total tax_on_lease;
        lease_payments \<leftarrow> mul lease_payment (of_int_dec lease_term);
        Some (acquisition_total,
              [''Lease payments'' \<mapsto> lease_payments,
               ''Drive-off'' \<mapsto> drive_off,
               ''Lease taxes'' \<mapsto> tax_on_lease])
      }
      else do {
        acquisition_total \<leftarrow> add taxable_base tax_amount;
        Some (acquisition_total, [''Upfront payment'' \<mapsto> acquisition_total])
      })"

text \<open>
  \<open>data["ownership_period_years"]\<close> raises \<open>KeyError\<close> when the key is missing;
  \<open>data.get("annual_mileage", 0)\<close> reads a missing key as 0. A conditional expression
  evaluates its condition first, so the division by the months is not evaluated when the
  ownership years are zero.
\<close>

definition estimate_car_cost ::
  "(decimal \<Rightarrow> int \<Rightarrow> decimal option) \<Rightarrow> (string \<rightharpoonup> pyval) \<Rightarrow> estimate option" where
  "estimate_car_cost pw data = do {
     years_value \<leftarrow> data ''ownership_period_years''; \<comment> \<open>\<open>KeyError\<close> when missing\<close>
     ownership_years \<leftarrow> Decimal_of_str years_value;
     purchase_price \<leftarrow> safe_decimal (dget data ''car_purchase_price'');
     incentives \<leftarrow> safe_decimal (dget data ''incentives_rebates'');
     tax_rate_percent \<leftarrow> safe_decimal (dget data ''local_tax_rate'');
     tax_rate \<leftarrow> divide_dec tax_rate_percent (Decimal False 100 0);
     net_price \<leftarrow> sub purchase_price incentives;
     let taxable_base = dec_max net_price (Decimal False 0 0);
     raw_tax \<leftarrow> mul taxable_base tax_rate;
     tax_amount \<leftarrow> q2 raw_tax;
     (acquisition_total, acquisition_breakdown) \<leftarrow>
       acquisition pw data taxable_base tax_amount tax_rate;
     annual_mileage \<leftarrow> Decimal_of_str (dget_default data ''annual_mileage'' (PInt 0));
     fuel_consumption \<leftarrow> safe_decimal (dget data ''fuel_consumption_per_100km'');
     electricity_consumption \<leftarrow> safe_decimal (dget data ''electricity_consumption_per_100km'');
     gas_price \<leftarrow> safe_decimal (dget data ''gas_price_per_liter'');
     electricity_price \<leftarrow> safe_decimal (dget data ''electricity_price_per_kwh'');
     annual_fuel_cost \<leftarrow>
       (if coeff fuel_consumption \<noteq> 0 \<and> coeff gas_price \<noteq> 0 then do {
          hundreds \<leftarrow> divide_dec annual_mileage (Decimal False 100 0);
          liters_per_year \<leftarrow> mul hundreds fuel_consumption;
          raw_cost \<leftarrow> mul liters_per_year gas_price;
          q2 raw_cost
        } else Some (Decimal False 0 0));
     annual_electric_cost \<leftarrow>
       (if coeff electricity_consumption \<noteq> 0 \<and> coeff electricity_price \<noteq> 0 then do {
          hundreds \<leftarrow> divide_dec annual_mileage (Decimal False 100 0);
          kwh_per_year \<leftarrow> mul hundreds electricity_consumption;
          raw_cost \<leftarrow> mul kwh_per_year electricity_price;
          q2 raw_cost
        } else Some (Decimal False 0 0));
     insurance \<leftarrow> safe_decimal (dget data ''insurance_cost_annual'');
     maintenance \<leftarrow> safe_decimal (dget data ''maintenance_cost_annual'');
     registration \<leftarrow> safe_decimal (dget data ''registration_fees_annual'');
     parking \<leftarrow> safe_decimal (dget data ''parking_cost_annual'');
     other \<leftarrow> safe_decimal (dget data ''other_recurring_costs'');
     energy \<leftarrow> add annual_fuel_cost annual_electric_cost;
     s2 \<leftarrow> add energy insurance;
     s3 \<leftarrow> add s2 maintenance;
     s4 \<leftarrow> add s3 registration;
     s5 \<leftarrow> add s4 parking;
     annual_recurring \<leftarrow> add s5 other;
     raw_recurring \<leftarrow> mul annual_recurring ownership_years;
     recurring_total \<leftarrow> q2 raw_recurring;
     charging_installation \<leftarrow> safe_decimal (dget data ''charging_installation_cost'');
     residual_value \<leftarrow> safe_decimal (dget data ''residual_value'');
     t1 \<leftarrow> add acquisition_total recurring_total;
     t2 \<leftarrow> add t1 charging_installation;
     raw_total \<leftarrow> sub t2 residual_value;
     total \<leftarrow> q2 raw_total;
     monthly \<leftarrow>
       (if coeff ownership_years \<noteq> 0 then do {
          months \<leftarrow> mul ownership_years (Decimal False 12 0);
          per_month \<leftarrow> divide_dec total months;
          q2 per_month
        } else Some (Decimal False 0 (- 2)));
     b_acquisition \<leftarrow> q2 acquisition_total;
     energy2 \<leftarrow> add annual_fuel_cost annual_electric_cost;
     b_energy \<leftarrow> q2 energy2;
     m_insurance \<leftarrow> mul insurance ownership_years;
     b_insurance \<leftarrow> q2 m_insurance;
     m_maintenance \<leftarrow> mul maintenance ownership_years;
     b_maintenance \<leftarrow> q2 m_maintenance;
     m_registration \<leftarrow> mul registration ownership_years;
     b_registration \<leftarrow> q2 m_registration;
     m_parking \<leftarrow> mul parking ownership_years;
     b_parking \<leftarrow> q2 m_parking;
     m_other \<leftarrow> mul other ownership_years;
     b_other \<leftarrow> q2 m_other;
     b_charging \<leftarrow> q2 charging_installation;
     b_residual \<leftarrow> q2 residual_value;
     annual_recurring_q \<leftarrow> q2 annual_recurring;
     Some \<lparr>total_cost = total,
           monthly_cost = monthly,
           annual_recurring_total = annual_recurring_q,
           breakdown =
             [''Acquisition'' \<mapsto> b_acquisition,
              ''Energy'' \<mapsto> b_energy,
              ''Insurance'' \<mapsto> b_insurance,
              ''Maintenance'' \<mapsto> b_maintenance,
              ''Registration'' \<mapsto> b_registration,
              ''Parking'' \<mapsto> b_parking,
              ''Other recurring'' \<mapsto> b_other,
              ''Charging infrastructure'' \<mapsto> b_charging,
              ''Residual credit'' \<mapsto> b_residual],
           annual_fuel_cost = annual_fuel_cost,
           annual_electric_cost = annual_electric_cost,
           acquisition_breakdown = acquisition_breakdown\<rparr>
   }"

section \<open>Auxiliary notions for the statements and their proofs\<close>

text \<open>
  Counting digits by comparison with growing powers of ten; it agrees with \<open>ndigits\<close>
  (lemma \<open>ndigits_upto_eq\<close>) and is what the proofs compute with on long numerals.
\<close>

function ndigits_upto :: "nat \<Rightarrow> nat \<Rightarrow> nat \<Rightarrow> nat" where
  "ndigits_upto p k n = (if n < p \<or> p = 0 then k else ndigits_upto (10 * p) (k + 1) n)"
  by pat_completeness auto
termination
  by (relation "measure (\<lambda>(p, k, n). n + 1 - p)") auto

declare ndigits_upto.simps [simp del]

text \<open>An amount with at most two fraction digits, as the form's money fields have.\<close>

definition two_places :: "pyval \<Rightarrow> bool" where
  "two_places v = (case safe_decimal v of None \<Rightarrow> True | Some d \<Rightarrow> - 2 \<le> expo d)"

text \<open>\<open>entry_is m k x\<close>: the dictionary \<open>m\<close> has the key \<open>k\<close>, and its value is what \<open>x\<close> returned.\<close>

definition entry_is :: "(string \<rightharpoonup> decimal) \<Rightarrow> string \<Rightarrow> decimal option \<Rightarrow> bool" where
  "entry_is m k x = (case m k of None \<Rightarrow> False | Some b \<Rightarrow> x = Some b)"

section \<open>Example inputs\<close>

text \<open>
  The cash purchase of the specification: price 20000, no incentives, 10 percent tax, no
  recurring costs, one year.
\<close>

definition cash_example :: "string \<rightharpoonup> pyval" where
  "cash_example = map_of
     [(''ownership_period_years'', PInt 1),
      (''car_purchase_price'', PDec (Decimal False 20000 0)),
      (''incentives_rebates'', PDec (Decimal False 0 0)),
      (''local_tax_rate'', PDec (Decimal False 10 0)),
      (''purchase_type'', PStr ''cash''),
      (''annual_mileage'', PInt 0)]"

text \<open>The same purchase under a type the engine does not know.\<close>

definition barter_example :: "string \<rightharpoonup> pyval" where
  "barter_example = cash_example(''purchase_type'' \<mapsto> PStr ''barter'')"

text \<open>The lease of the specification: 300 a month for 36 months, 1000 drive-off, no tax.\<close>

definition lease_example :: "string \<rightharpoonup> pyval" where
  "lease_example = map_of
     [(''ownership_period_years'', PInt 3),
      (''purchase_type'', PStr ''lease''),
      (''local_tax_rate'', PDec (Decimal False 0 0)),
      (''lease_term_months'', PInt 36),
      (''lease_monthly_payment'', PDec (Decimal False 300 0)),
      (''lease_drive_off_cost'', PDec (Decimal False 1000 0)),
      (''annual_mileage'', PInt 0)]"

text \<open>
  A financed purchase: price 20000.00, incentives 1000.00, 5 percent tax, 2000.00 down,
  12 percent APR over 12 months, kept 5 years, 15000 km a year at 7.50 l/100 km and
  1.899 a liter, insurance 1200.00 a year, resale value 8000.00.
\<close>

definition finance_example :: "string \<rightharpoonup> pyval" where
  "finance_example = map_of
     [(''ownership_period_years'', PInt 5),
      (''car_purchase_price'', PDec (Decimal False 2000000 (- 2))),
      (''incentives_rebates'', PDec (Decimal False 100000 (- 2))),
      (''local_tax_rate'', PDec (Decimal False 5 0)),
      (''purchase_type'', PStr ''finance''),
      (''finance_down_payment'', PDec (Decimal False 200000 (- 2))),
      (''finance_interest_rate'', PDec (Decimal False 12 0)),
      (''finance_term_months'', PInt 12),
      (''annual_mileage'', PInt 15000),
      (''fuel_consumption_per_100km'', PDec (Decimal False 750 (- 2))),
      (''gas_price_per_liter'', PDec (Decimal False 1899 (- 3))),
      (''insurance_cost_annual'', PDec (Decimal False 120000 (- 2))),
      (''residual_value'', PDec (Decimal False 800000 (- 2)))]"

text \<open>A cash purchase at price 100 with a given resale value, and nothing else.\<close>

definition resale_example :: "decimal \<Rightarrow> string \<rightharpoonup> pyval" where
  "resale_example v = map_of
     [(''ownership_period_years'', PInt 1),
      (''car_purchase_price'', PDec (Decimal False 100 0)),
      (''purchase_type'', PStr ''cash''),
      (''residual_value'', PDec v)]"

text \<open>A cash purchase at a price of \<open>1E+27\<close>.\<close>

definition huge_example :: "string \<rightharpoonup> pyval" where
  "huge_example = map_of
     [(''ownership_period_years'', PInt 1),
      (''car_purchase_price'', PDec (Decimal False 1 27)),
      (''purchase_type'', PStr ''cash'')]"

text \<open>A cash purchase at price 100 held for zero years.\<close>

definition zero_years_example :: "string \<rightharpoonup> pyval" where
  "zero_years_example = map_of
     [(''ownership_period_years'', PInt 0),
      (''car_purchase_price'', PDec (Decimal False 100 0)),
      (''purchase_type'', PStr ''cash'')]"

section \<open>Basic facts\<close>


lemma ndigits_pos: "0 < ndigits n"
  by (subst ndigits.simps) simp

lemma ndigits_less: "n < 10 ^ ndigits n"
proof (induction n rule: ndigits.induct)
  case (1 n)
  show ?case
  proof (cases "n < 10")
    case True
    then show ?thesis by (subst ndigits.simps) simp
  next
    case False
    with 1 have "n div 10 < 10 ^ ndigits (n div 10)" by simp
    then have "n < 10 * 10 ^ ndigits (n div 10)" by linarith
    with False show ?thesis by (subst ndigits.simps) simp
  qed
qed

lemma ndigits_ge: "n \<noteq> 0 \<Longrightarrow> 10 ^ (ndigits n - 1) \<le> n"
proof (induction n rule: ndigits.induct)
  case (1 n)
  show ?case
  proof (cases "n < 10")
    case True
    with 1(2) show ?thesis by (subst ndigits.simps) simp
  next
    case False
    then have nz: "n div 10 \<noteq> 0" by simp
    with 1 False have "10 ^ (ndigits (n div 10) - 1) \<le> n div 10" by simp
    then have "10 * 10 ^ (ndigits (n div 10) - 1) \<le> n" by linarith
    moreover have "ndigits n = Suc (ndigits (n div 10))"
      using False by (subst ndigits.simps) simp
    moreover have "0 < ndigits (n div 10)" by (rule ndigits_pos)
    ultimately show ?thesis by (cases "ndigits (n div 10)") simp_all
  qed
qed

lemma ndigits_unique:
  assumes "10 ^ k \<le> n" and "n < 10 ^ Suc k"
  shows "ndigits n = Suc k"
proof -
  have nz: "n \<noteq> 0" using assms(1) by (cases n) simp_all
  have "(10::nat) ^ (ndigits n - 1) < 10 ^ Suc k"
    using ndigits_ge[OF nz] assms(2) by linarith
  then have a: "ndigits n - 1 < Suc k" by (rule power_less_imp_less_exp[rotated]) simp
  have "(10::nat) ^ k < 10 ^ ndigits n"
    using ndigits_less[of n] assms(1) by linarith
  then have b: "k < ndigits n" by (rule power_less_imp_less_exp[rotated]) simp
  from a b show ?thesis by linarith
qed

lemma ndigits_le_iff: "n \<noteq> 0 \<Longrightarrow> ndigits n \<le> k \<longleftrightarrow> n < 10 ^ k"
proof
  assume "ndigits n \<le> k"
  then have "(10::nat) ^ ndigits n \<le> 10 ^ k" by simp
  with ndigits_less[of n] show "n < 10 ^ k" by linarith
next
  assume nz: "n \<noteq> 0" and "n < 10 ^ k"
  with ndigits_ge[OF nz] have "(10::nat) ^ (ndigits n - 1) < 10 ^ k" by linarith
  then have "ndigits n - 1 < k" by (rule power_less_imp_less_exp[rotated]) simp
  then show "ndigits n \<le> k" by linarith
qed

lemma ndigits_zero: "ndigits 0 = 1"
  by (subst ndigits.simps) simp

lemma ndigits_upto_eq:
  "0 < k \<Longrightarrow> k = 1 \<or> 10 ^ (k - 1) \<le> n \<Longrightarrow> ndigits_upto (10 ^ k) k n = ndigits n"
proof (induction "10 ^ k :: nat" k n arbitrary: k rule: ndigits_upto.induct)
  case (1 k n)
  show ?case
  proof (cases "n < 10 ^ k")
    case True
    have "ndigits n = k"
    proof (cases "k = 1")
      case True
      with \<open>n < 10 ^ k\<close> show ?thesis by (subst ndigits.simps) simp
    next
      case False
      with 1(2,3) obtain j where j: "k = Suc j" and "10 ^ j \<le> n" by (cases k) auto
      with True show ?thesis using ndigits_unique[of j n] by simp
    qed
    with True show ?thesis by (subst ndigits_upto.simps) simp
  next
    case False
    then have "ndigits_upto (10 ^ k) k n = ndigits_upto (10 * 10 ^ k) (k + 1) n"
      by (subst ndigits_upto.simps) simp
    also have "\<dots> = ndigits_upto (10 ^ (k + 1)) (k + 1) n" by simp
    also have "\<dots> = ndigits n"
      using False by (intro 1(1)) simp_all
    finally show ?thesis .
  qed
qed

lemma ndigits_eval: "ndigits n = ndigits_upto 10 1 n"
  using ndigits_upto_eq[of 1 n] by simp


lemma strip_zeros_eqI:
  "c = c' * 10 ^ m \<Longrightarrow> e' = e + int m \<Longrightarrow> m = 0 \<or> e' \<le> ideal \<Longrightarrow> c' \<noteq> 0 \<Longrightarrow>
   ideal \<le> e' \<or> c' mod 10 \<noteq> 0 \<Longrightarrow> strip_zeros c e ideal = (c', e')"
proof (induction m arbitrary: c e)
  case 0
  then show ?case by (subst strip_zeros.simps) auto
next
  case (Suc m)
  have "strip_zeros c e ideal = strip_zeros (c div 10) (e + 1) ideal"
    using Suc.prems by (subst strip_zeros.simps) auto
  also have "\<dots> = (c', e')"
    using Suc.prems by (intro Suc.IH) auto
  finally show ?case .
qed

lemma Let_Decimal: "Let (Decimal s c e) f = f (Decimal s c e)"
  by simp

lemma Let_pyval: "Let (PStr x) g = g (PStr x)" "Let (PInt i) g = g (PInt i)"
  "Let (PDec d) g = g (PDec d)"
  by simp_all

lemma ndigits_numeral:
  "ndigits (numeral k) = ndigits_upto 10 1 (numeral k)"
  by (rule ndigits_eval)

lemma ndigits_small: "ndigits 0 = 1" "ndigits 1 = 1" "ndigits (Suc 0) = 1"
  by (subst ndigits.simps, simp)+

lemma ndigits_upto_numeral:
  "ndigits_upto (numeral p) k (numeral n) =
     (if (numeral n :: nat) < numeral p then k
      else ndigits_upto (10 * numeral p) (k + 1) (numeral n))"
  by (subst ndigits_upto.simps) simp

lemma strip_zeros_small: "strip_zeros 0 e ideal = (0, e)" "strip_zeros 1 e ideal = (1, e)"
  by (subst strip_zeros.simps, simp)+

lemmas ctx_defs = prec_def Emax_def Emin_def Etiny_def Etop_def cent_def

lemmas dec_eval =
  ctx_defs ndigits_numeral ndigits_small ndigits_upto_numeral strip_zeros_small round_coeff_def
  Let_Decimal Let_pyval
  fix_ctx_def [where d = "Decimal s c e" for s c e]
  adjusted_def [where d = "Decimal s c e" for s c e]
  rescale_def [where d = "Decimal s c e" for s c e]
  scaled_def [where d = "Decimal s c e" for s c e]
  negate_def [where d = "Decimal s c e" for s c e]
  add_def [where x = "Decimal s c e" and y = "Decimal s' c' e'" for s c e s' c' e']
  sub_def [where x = "Decimal s c e" and y = "Decimal s' c' e'" for s c e s' c' e']
  mul_def [where x = "Decimal s c e" and y = "Decimal s' c' e'" for s c e s' c' e']
  divide_dec_def [where x = "Decimal s c e" and y = "Decimal s' c' e'" for s c e s' c' e']
  quantize_def [where d = "Decimal s c e" and q = "Decimal s' c' e'" for s c e s' c' e']
  dec_less_def [where x = "Decimal s c e" and y = "Decimal s' c' e'" for s c e s' c' e']
  dec_le_def [where x = "Decimal s c e" and y = "Decimal s' c' e'" for s c e s' c' e']
  dec_eq_def [where x = "Decimal s c e" and y = "Decimal s' c' e'" for s c e s' c' e']
  dec_max_def [where a = "Decimal s c e" and b = "Decimal s' c' e'" for s c e s' c' e']
  of_int_dec_def [where n = "numeral k" for k] of_int_dec_def [where n = 0]
  of_int_dec_def [where n = 1]
  power_rounded_def [where b = "Decimal s c e" for s c e]
  calculate_finance_schedule_def [where ?principal0.0 = "Decimal s c e"
    and interest_rate_percent = "Decimal s' c' e'" for s c e s' c' e']

lemmas engine_eval =
  estimate_car_cost_def acquisition_def dget_def dget_default_def safe_decimal_def empty_like_def
  Decimal_of_str_def py_int_def


text \<open>Every step of a run of the engine that returns.\<close>

lemma estimate_car_cost_trace [consumes 1, case_names trace]:
  assumes "estimate_car_cost pw data = Some r"
  obtains years_value ownership_years purchase_price incentives tax_rate_percent tax_rate net_price raw_tax tax_amount acquisition_total acq_breakdown annual_mileage fuel_consumption electricity_consumption gas_price electricity_price fuel_cost electric_cost insurance maintenance registration parking other energy s2 s3 s4 s5 annual_recurring raw_recurring recurring_total charging_installation residual_value t1 t2 raw_total total monthly b_acquisition energy2 b_energy m_insurance b_insurance m_maintenance b_maintenance m_registration b_registration m_parking b_parking m_other b_other b_charging b_residual annual_recurring_q
  where "data ''ownership_period_years'' = Some years_value"
    and "Decimal_of_str years_value = Some ownership_years"
    and "safe_decimal (dget data ''car_purchase_price'') = Some purchase_price"
    and "safe_decimal (dget data ''incentives_rebates'') = Some incentives"
    and "safe_decimal (dget data ''local_tax_rate'') = Some tax_rate_percent"
    and "divide_dec tax_rate_percent (Decimal False 100 0) = Some tax_rate"
    and "sub purchase_price incentives = Some net_price"
    and "mul (dec_max net_price (Decimal False 0 0)) tax_rate = Some raw_tax"
    and "q2 raw_tax = Some tax_amount"
    and "acquisition pw data (dec_max net_price (Decimal False 0 0)) tax_amount tax_rate = Some (acquisition_total, acq_breakdown)"
    and "Decimal_of_str (dget_default data ''annual_mileage'' (PInt 0)) = Some annual_mileage"
    and "safe_decimal (dget data ''fuel_consumption_per_100km'') = Some fuel_consumption"
    and "safe_decimal (dget data ''electricity_consumption_per_100km'') = Some electricity_consumption"
    and "safe_decimal (dget data ''gas_price_per_liter'') = Some gas_price"
    and "safe_decimal (dget data ''electricity_price_per_kwh'') = Some electricity_price"
    and "(if coeff fuel_consumption \<noteq> 0 \<and> coeff gas_price \<noteq> 0 then do {
          hundreds \<leftarrow> divide_dec annual_mileage (Decimal False 100 0);
          liters_per_year \<leftarrow> mul hundreds fuel_consumption;
          raw_cost \<leftarrow> mul liters_per_year gas_price;
          q2 raw_cost
        } else Some (Decimal False 0 0)) = Some fuel_cost"
    and "(if coeff electricity_consumption \<noteq> 0 \<and> coeff electricity_price \<noteq> 0 then do {
          hundreds \<leftarrow> divide_dec annual_mileage (Decimal False 100 0);
          kwh_per_year \<leftarrow> mul hundreds electricity_consumption;
          raw_cost \<leftarrow> mul kwh_per_year electricity_price;
          q2 raw_cost
        } else Some (Decimal False 0 0)) = Some electric_cost"
    and "safe_decimal (dget data ''insurance_cost_annual'') = Some insurance"
    and "safe_decimal (dget data ''maintenance_cost_annual'') = Some maintenance"
    and "safe_decimal (dget data ''registration_fees_annual'') = Some registration"
    and "safe_decimal (dget data ''parking_cost_annual'') = Some parking"
    and "safe_decimal (dget data ''other_recurring_costs'') = Some other"
    and "add fuel_cost electric_cost = Some energy"
    and "add energy insurance = Some s2"
    and "add s2 maintenance = Some s3"
    and "add s3 registration = Some s4"
    and "add s4 parking = Some s5"
    and "add s5 other = Some annual_recurring"
    and "mul annual_recurring ownership_years = Some raw_recurring"
    and "q2 raw_recurring = Some recurring_total"
    and "safe_decimal (dget data ''charging_installation_cost'') = Some charging_installation"
    and "safe_decimal (dget data ''residual_value'') = Some residual_value"
    and "add acquisition_total recurring_total = Some t1"
    and "add t1 charging_installation = Some t2"
    and "sub t2 residual_value = Some raw_total"
    and "q2 raw_total = Some total"
    and "(if coeff ownership_years \<noteq> 0 then do {
          months \<leftarrow> mul ownership_years (Decimal False 12 0);
          per_month \<leftarrow> divide_dec total months;
          q2 per_month
        } else Some (Decimal False 0 (- 2))) = Some monthly"
    and "q2 acquisition_total = Some b_acquisition"
    and "add fuel_cost electric_cost = Some energy2"
    and "q2 energy2 = Some b_energy"
    and "mul insurance ownership_years = Some m_insurance"
    and "q2 m_insurance = Some b_insurance"
    and "mul maintenance ownership_years = Some m_maintenance"
    and "q2 m_maintenance = Some b_maintenance"
    and "mul registration ownership_years = Some m_registration"
    and "q2 m_registration = Some b_registration"
    and "mul parking ownership_years = Some m_parking"
    and "q2 m_parking = Some b_parking"
    and "mul other ownership_years = Some m_other"
    and "q2 m_other = Some b_other"
    and "q2 charging_installation = Some b_charging"
    and "q2 residual_value = Some b_residual"
    and "q2 annual_recurring = Some annual_recurring_q"
    and "r = \<lparr>total_cost = total,
           monthly_cost = monthly,
           annual_recurring_total = annual_recurring_q,
           breakdown =
             [''Acquisition'' \<mapsto> b_acquisition,
              ''Energy'' \<mapsto> b_energy,
              ''Insurance'' \<mapsto> b_insurance,
              ''Maintenance'' \<mapsto> b_maintenance,
              ''Registration'' \<mapsto> b_registration,
              ''Parking'' \<mapsto> b_parking,
              ''Other recurring'' \<mapsto> b_other,
              ''Charging infrastructure'' \<mapsto> b_charging,
              ''Residual credit'' \<mapsto> b_residual],
           annual_fuel_cost = fuel_cost,
           annual_electric_cost = electric_cost,
           acquisition_breakdown = acq_breakdown\<rparr>"
  using assms unfolding estimate_car_cost_def
  apply (simp only: bind_eq_Some_conv Let_def split_paired_Ex prod.case option.inject)
  apply (elim exE conjE)
  apply (rule that; (assumption | (rule sym, assumption)))
  done

section \<open>The examples, computed\<close>

text \<open>
  The exact quotients that occur in the examples, with their trailing zeros removed:
  10/100, 5/100, 12/100, 0.12/12 and 15000/100.
\<close>

lemma strip_zeros_examples:
  "strip_zeros (10 ^ 29) (- 30) 0 = (1, - 1)"
  "strip_zeros (5 * 10 ^ 29) (- 31) 0 = (5, - 2)"
  "strip_zeros (12 * 10 ^ 28) (- 30) 0 = (12, - 2)"
  "strip_zeros (10 ^ 29) (- 31) (- 2) = (1, - 2)"
  "strip_zeros (15 * 10 ^ 28) (- 27) 0 = (150, 0)"
  by (rule strip_zeros_eqI[where m = 29] strip_zeros_eqI[where m = 28]
           strip_zeros_eqI[where m = 27], simp, simp, simp, simp, simp)+

lemmas strip_zeros_hints = strip_zeros_examples [simplified]

lemma eval_schedule_example:
  "calculate_finance_schedule power_rounded (Decimal False 10000 0) (Decimal False 0 0) 12
     = Some \<lparr>monthly_payment = Decimal False 83333 (- 2),
             total_paid = Decimal False 1000000 (- 2)\<rparr>"
  by (simp add: dec_eval)

lemma eval_cash_example:
  "estimate_car_cost power_rounded cash_example =
     Some \<lparr>total_cost = Decimal False 2200000 (- 2),
           monthly_cost = Decimal False 183333 (- 2),
           annual_recurring_total = Decimal False 0 (- 2),
           breakdown =
             [''Acquisition'' \<mapsto> Decimal False 2200000 (- 2),
              ''Energy'' \<mapsto> Decimal False 0 (- 2),
              ''Insurance'' \<mapsto> Decimal False 0 (- 2),
              ''Maintenance'' \<mapsto> Decimal False 0 (- 2),
              ''Registration'' \<mapsto> Decimal False 0 (- 2),
              ''Parking'' \<mapsto> Decimal False 0 (- 2),
              ''Other recurring'' \<mapsto> Decimal False 0 (- 2),
              ''Charging infrastructure'' \<mapsto> Decimal False 0 (- 2),
              ''Residual credit'' \<mapsto> Decimal False 0 (- 2)],
           annual_fuel_cost = Decimal False 0 0,
           annual_electric_cost = Decimal False 0 0,
           acquisition_breakdown = [''Upfront payment'' \<mapsto> Decimal False 2200000 (- 2)]\<rparr>"
  by (simp add: dec_eval engine_eval cash_example_def strip_zeros_hints)

lemma eval_barter_example:
  "estimate_car_cost power_rounded barter_example =
     Some \<lparr>total_cost = Decimal False 2200000 (- 2),
           monthly_cost = Decimal False 183333 (- 2),
           annual_recurring_total = Decimal False 0 (- 2),
           breakdown =
             [''Acquisition'' \<mapsto> Decimal False 2200000 (- 2),
              ''Energy'' \<mapsto> Decimal False 0 (- 2),
              ''Insurance'' \<mapsto> Decimal False 0 (- 2),
              ''Maintenance'' \<mapsto> Decimal False 0 (- 2),
              ''Registration'' \<mapsto> Decimal False 0 (- 2),
              ''Parking'' \<mapsto> Decimal False 0 (- 2),
              ''Other recurring'' \<mapsto> Decimal False 0 (- 2),
              ''Charging infrastructure'' \<mapsto> Decimal False 0 (- 2),
              ''Residual credit'' \<mapsto> Decimal False 0 (- 2)],
           annual_fuel_cost = Decimal False 0 0,
           annual_electric_cost = Decimal False 0 0,
           acquisition_breakdown =
             [''Upfront payment'' \<mapsto> Decimal False 2200000 (- 2)]\<rparr>"
  by (simp add: dec_eval engine_eval cash_example_def barter_example_def strip_zeros_hints)

lemma eval_lease_example:
  "estimate_car_cost power_rounded lease_example =
     Some \<lparr>total_cost = Decimal False 1180000 (- 2),
           monthly_cost = Decimal False 32778 (- 2),
           annual_recurring_total = Decimal False 0 (- 2),
           breakdown =
             [''Acquisition'' \<mapsto> Decimal False 1180000 (- 2),
              ''Energy'' \<mapsto> Decimal False 0 (- 2),
              ''Insurance'' \<mapsto> Decimal False 0 (- 2),
              ''Maintenance'' \<mapsto> Decimal False 0 (- 2),
              ''Registration'' \<mapsto> Decimal False 0 (- 2),
              ''Parking'' \<mapsto> Decimal False 0 (- 2),
              ''Other recurring'' \<mapsto> Decimal False 0 (- 2),
              ''Charging infrastructure'' \<mapsto> Decimal False 0 (- 2),
              ''Residual credit'' \<mapsto> Decimal False 0 (- 2)],
           annual_fuel_cost = Decimal False 0 0,
           annual_electric_cost = Decimal False 0 0,
           acquisition_breakdown =
             [''Lease payments'' \<mapsto> Decimal False 10800 0,
              ''Drive-off'' \<mapsto> Decimal False 1000 0,
              ''Lease taxes'' \<mapsto> Decimal False 0 (- 2)]\<rparr>"
  by (simp add: dec_eval engine_eval lease_example_def strip_zeros_hints)

lemma eval_finance_example:
  "estimate_car_cost power_rounded finance_example =
     Some \<lparr>total_cost = Decimal False 2981993 (- 2),
           monthly_cost = Decimal False 49700 (- 2),
           annual_recurring_total = Decimal False 333638 (- 2),
           breakdown =
             [''Acquisition'' \<mapsto> Decimal False 2113803 (- 2),
              ''Energy'' \<mapsto> Decimal False 213638 (- 2),
              ''Insurance'' \<mapsto> Decimal False 600000 (- 2),
              ''Maintenance'' \<mapsto> Decimal False 0 (- 2),
              ''Registration'' \<mapsto> Decimal False 0 (- 2),
              ''Parking'' \<mapsto> Decimal False 0 (- 2),
              ''Other recurring'' \<mapsto> Decimal False 0 (- 2),
              ''Charging infrastructure'' \<mapsto> Decimal False 0 (- 2),
              ''Residual credit'' \<mapsto> Decimal False 800000 (- 2)],
           annual_fuel_cost = Decimal False 213638 (- 2),
           annual_electric_cost = Decimal False 0 0,
           acquisition_breakdown =
             [''Down payment'' \<mapsto> Decimal False 200000 (- 2),
              ''Financed total'' \<mapsto> Decimal False 1913803 (- 2),
              ''Taxes'' \<mapsto> Decimal False 95000 (- 2)]\<rparr>"
  by (simp add: dec_eval engine_eval finance_example_def strip_zeros_hints)

lemma eval_resale_example:
  "map_option total_cost (estimate_car_cost power_rounded (resale_example (Decimal False 0 0)))
     = Some (Decimal False 10000 (- 2))"
  "map_option total_cost (estimate_car_cost power_rounded (resale_example (Decimal False 4 (- 3))))
     = Some (Decimal False 10000 (- 2))"
  "map_option total_cost (estimate_car_cost power_rounded (resale_example (Decimal False 3000 (- 2))))
     = Some (Decimal False 7000 (- 2))"
  by (simp_all add: dec_eval engine_eval resale_example_def strip_zeros_hints)

lemma eval_huge_example: "estimate_car_cost power_rounded huge_example = None"
  by (simp add: dec_eval engine_eval huge_example_def strip_zeros_hints)

lemma eval_zero_years_example:
  "map_option (\<lambda>r. (total_cost r, monthly_cost r))
     (estimate_car_cost power_rounded zero_years_example)
     = Some (Decimal False 10000 (- 2), Decimal False 0 (- 2))"
  by (simp add: dec_eval engine_eval zero_years_example_def strip_zeros_hints)

section \<open>The amortized loan scheduler: claims\<close>

lemma schedule_zero_rate:
  assumes "quantize p0 cent ROUND_HALF_EVEN = Some p"
    and "0 < term_months" and "\<not> dec_le p (of_int_dec 0)"
    and "divide_dec rate (Decimal False 100 0) = Some r100"
    and "divide_dec r100 (Decimal False 12 0) = Some m"
    and "dec_eq m (of_int_dec 0)"
  shows "calculate_finance_schedule pw p0 rate term_months = do {
           payment \<leftarrow> divide_dec p (of_int_dec term_months);
           total \<leftarrow> mul payment (of_int_dec term_months);
           mp \<leftarrow> q2 payment;
           tp \<leftarrow> q2 total;
           Some \<lparr>monthly_payment = mp, total_paid = tp\<rparr>
         }"
  using assms by (simp add: calculate_finance_schedule_def)

text \<open>
  Claim C1, as the specification states it: principal 10000, APR 0 percent, 12 months
  return a monthly payment of 833.33 and a total paid of 9999.96. The scheduler does not
  return that pair.
\<close>

theorem schedule_example_total_paid_counterexample:
  "calculate_finance_schedule power_rounded (Decimal False 10000 0) (Decimal False 0 0) 12
     \<noteq> Some \<lparr>monthly_payment = Decimal False 83333 (- 2),
              total_paid = Decimal False 999996 (- 2)\<rparr>"
  by (simp add: eval_schedule_example)

text \<open>
  Claim C1, amended. When the monthly rate is zero (and the term and the principal are
  positive) the monthly payment is the principal divided by the term, the total is that
  unrounded quotient times the term, and round-half-up to two digits is applied to these
  two results only. For principal 10000, APR 0 percent and 12 months this returns a
  monthly payment of 833.33 and a total paid of 10000.00.
\<close>

theorem schedule_zero_rate_simple_division:
  "(\<forall>pw p0 rate term_months p r100 m.
      quantize p0 cent ROUND_HALF_EVEN = Some p \<longrightarrow> 0 < term_months \<longrightarrow>
      \<not> dec_le p (of_int_dec 0) \<longrightarrow>
      divide_dec rate (Decimal False 100 0) = Some r100 \<longrightarrow>
      divide_dec r100 (Decimal False 12 0) = Some m \<longrightarrow> dec_eq m (of_int_dec 0) \<longrightarrow>
      calculate_finance_schedule pw p0 rate term_months = do {
        payment \<leftarrow> divide_dec p (of_int_dec term_months);
        total \<leftarrow> mul payment (of_int_dec term_months);
        mp \<leftarrow> q2 payment;
        tp \<leftarrow> q2 total;
        Some \<lparr>monthly_payment = mp, total_paid = tp\<rparr>
      })
   \<and> calculate_finance_schedule power_rounded (Decimal False 10000 0) (Decimal False 0 0) 12
       = Some \<lparr>monthly_payment = Decimal False 83333 (- 2),
               total_paid = Decimal False 1000000 (- 2)\<rparr>"
  using schedule_zero_rate eval_schedule_example by blast

theorem schedule_zero_rate_simple_division_witness:
  "calculate_finance_schedule power_rounded (Decimal False 10000 0) (Decimal False 0 0) 12 = do {
     payment \<leftarrow> divide_dec (Decimal False 1000000 (- 2)) (of_int_dec 12);
     total \<leftarrow> mul payment (of_int_dec 12);
     mp \<leftarrow> q2 payment;
     tp \<leftarrow> q2 total;
     Some \<lparr>monthly_payment = mp, total_paid = tp\<rparr>
   }"
proof -
  have 1: "quantize (Decimal False 10000 0) cent ROUND_HALF_EVEN
             = Some (Decimal False 1000000 (- 2))"
    by (simp add: dec_eval)
  have 2: "\<not> dec_le (Decimal False 1000000 (- 2)) (of_int_dec 0)"
    by (simp add: dec_eval)
  have 3: "divide_dec (Decimal False 0 0) (Decimal False 100 0) = Some (Decimal False 0 0)"
    by (simp add: dec_eval)
  have 4: "divide_dec (Decimal False 0 0) (Decimal False 12 0) = Some (Decimal False 0 0)"
    by (simp add: dec_eval)
  have 5: "dec_eq (Decimal False 0 0) (of_int_dec 0)"
    by (simp add: dec_eval)
  show ?thesis
    using schedule_zero_rate_simple_division 1 2 3 4 5 by (meson zero_less_numeral)
qed

section \<open>The breakdown: claims\<close>

text \<open>
  Claim C2. In every result of the engine, the "Energy" entry of the breakdown is the
  annual fuel cost plus the annual electric cost, rounded half-up to two digits, with no
  factor for the ownership years; the "Insurance", "Maintenance", "Registration",
  "Parking" and "Other recurring" entries are the annual value times the ownership years,
  rounded half-up to two digits.
\<close>

theorem breakdown_energy_annual_others_by_years:
  assumes "estimate_car_cost pw data = Some r"
  shows "\<exists>years insurance maintenance registration parking other.
     data ''ownership_period_years'' \<bind> Decimal_of_str = Some years \<and>
     safe_decimal (dget data ''insurance_cost_annual'') = Some insurance \<and>
     safe_decimal (dget data ''maintenance_cost_annual'') = Some maintenance \<and>
     safe_decimal (dget data ''registration_fees_annual'') = Some registration \<and>
     safe_decimal (dget data ''parking_cost_annual'') = Some parking \<and>
     safe_decimal (dget data ''other_recurring_costs'') = Some other \<and>
     entry_is (breakdown r) ''Energy''
       (add (annual_fuel_cost r) (annual_electric_cost r) \<bind> q2) \<and>
     entry_is (breakdown r) ''Insurance'' (mul insurance years \<bind> q2) \<and>
     entry_is (breakdown r) ''Maintenance'' (mul maintenance years \<bind> q2) \<and>
     entry_is (breakdown r) ''Registration'' (mul registration years \<bind> q2) \<and>
     entry_is (breakdown r) ''Parking'' (mul parking years \<bind> q2) \<and>
     entry_is (breakdown r) ''Other recurring'' (mul other years \<bind> q2)"
  using assms
proof (cases rule: estimate_car_cost_trace)
  case (trace years_value ownership_years purchase_price incentives tax_rate_percent tax_rate net_price raw_tax tax_amount acquisition_total acq_breakdown annual_mileage fuel_consumption electricity_consumption gas_price electricity_price fuel_cost electric_cost insurance maintenance registration parking other energy s2 s3 s4 s5 annual_recurring raw_recurring recurring_total charging_installation residual_value t1 t2 raw_total total monthly b_acquisition energy2 b_energy m_insurance b_insurance m_maintenance b_maintenance m_registration b_registration m_parking b_parking m_other b_other b_charging b_residual annual_recurring_q)
  note f = trace(1) trace(2) trace(18) trace(19) trace(20) trace(21) trace(22) trace(39) trace(40) trace(41) trace(42) trace(43) trace(44) trace(45) trace(46) trace(47) trace(48) trace(49) trace(50)
  have b: "breakdown r ''Energy'' = Some b_energy"
    "breakdown r ''Insurance'' = Some b_insurance"
    "breakdown r ''Maintenance'' = Some b_maintenance"
    "breakdown r ''Registration'' = Some b_registration"
    "breakdown r ''Parking'' = Some b_parking"
    "breakdown r ''Other recurring'' = Some b_other"
    "annual_fuel_cost r = fuel_cost" "annual_electric_cost r = electric_cost"
    by (simp_all add: trace(54))
  show ?thesis
    unfolding entry_is_def b
    by (rule exI[of _ ownership_years], rule exI[of _ insurance], rule exI[of _ maintenance],
        rule exI[of _ registration], rule exI[of _ parking], rule exI[of _ other])
       (simp only: f option.case Option.bind.bind_lunit simp_thms)
qed

text \<open>
  In the financed example, kept 5 years: the annual energy cost is 2136.38 and so is the
  "Energy" entry, while the insurance of 1200.00 a year enters as 6000.00.
\<close>

theorem breakdown_energy_annual_others_by_years_witness:
  "map_option (\<lambda>r. (annual_fuel_cost r, annual_electric_cost r, breakdown r ''Energy'',
                     breakdown r ''Insurance''))
     (estimate_car_cost power_rounded finance_example)
   = Some (Decimal False 213638 (- 2), Decimal False 0 0, Some (Decimal False 213638 (- 2)), Some (Decimal False 600000 (- 2)))"
proof -
  define r where "r = the (estimate_car_cost power_rounded finance_example)"
  have e: "estimate_car_cost power_rounded finance_example = Some r"
    by (simp add: r_def eval_finance_example)
  have "entry_is (breakdown r) ''Energy''
          (add (annual_fuel_cost r) (annual_electric_cost r) \<bind> q2)"
    using breakdown_energy_annual_others_by_years[OF e] by blast
  moreover have "annual_fuel_cost r = Decimal False 213638 (- 2)" "annual_electric_cost r = Decimal False 0 0"
    "breakdown r ''Insurance'' = Some (Decimal False 600000 (- 2))"
    by (simp_all add: r_def eval_finance_example)
  moreover have "add (Decimal False 213638 (- 2)) (Decimal False 0 0) \<bind> q2 = Some (Decimal False 213638 (- 2))"
    by (simp add: dec_eval)
  ultimately show ?thesis
    by (simp add: e entry_is_def split: option.splits)
qed

section \<open>The annual energy costs: claims\<close>

lemma acquisition_ignores_fuel_type:
  "acquisition pw (data(''fuel_type'' := t)) = acquisition pw data"
  by (simp add: acquisition_def dget_def dget_default_def fun_eq_iff cong: if_cong)

text \<open>
  Claim C7. In every result of the engine, the annual fuel cost is
  \<open>(annual_mileage / 100) * fuel_consumption * gas_price\<close> rounded half-up to two digits when
  the fuel consumption and the fuel price are both non-zero, and the decimal zero when either
  is zero (an absent field reads as zero); the annual electric cost follows the same rule
  with the electric consumption and the electricity price. The engine never reads the
  fuel type: whatever it is, or when it is missing, the result is the same.
\<close>

theorem annual_energy_costs:
  assumes "estimate_car_cost pw data = Some r"
  shows "(\<exists>mileage fc gp ec ep.
     Decimal_of_str (dget_default data ''annual_mileage'' (PInt 0)) = Some mileage \<and>
     safe_decimal (dget data ''fuel_consumption_per_100km'') = Some fc \<and>
     safe_decimal (dget data ''gas_price_per_liter'') = Some gp \<and>
     safe_decimal (dget data ''electricity_consumption_per_100km'') = Some ec \<and>
     safe_decimal (dget data ''electricity_price_per_kwh'') = Some ep \<and>
     Some (annual_fuel_cost r) =
       (if coeff fc \<noteq> 0 \<and> coeff gp \<noteq> 0
        then do { hundreds \<leftarrow> divide_dec mileage (Decimal False 100 0);
                  liters \<leftarrow> mul hundreds fc;
                  cost \<leftarrow> mul liters gp;
                  q2 cost }
        else Some (Decimal False 0 0)) \<and>
     Some (annual_electric_cost r) =
       (if coeff ec \<noteq> 0 \<and> coeff ep \<noteq> 0
        then do { hundreds \<leftarrow> divide_dec mileage (Decimal False 100 0);
                  kwh \<leftarrow> mul hundreds ec;
                  cost \<leftarrow> mul kwh ep;
                  q2 cost }
        else Some (Decimal False 0 0))) \<and>
   (\<forall>t. estimate_car_cost pw (data(''fuel_type'' := t)) = Some r)"
proof (rule conjI)
  from assms show "\<forall>t. estimate_car_cost pw (data(''fuel_type'' := t)) = Some r"
    by (simp add: estimate_car_cost_def acquisition_ignores_fuel_type dget_def
          dget_default_def)
next
  from assms show "\<exists>mileage fc gp ec ep.
     Decimal_of_str (dget_default data ''annual_mileage'' (PInt 0)) = Some mileage \<and>
     safe_decimal (dget data ''fuel_consumption_per_100km'') = Some fc \<and>
     safe_decimal (dget data ''gas_price_per_liter'') = Some gp \<and>
     safe_decimal (dget data ''electricity_consumption_per_100km'') = Some ec \<and>
     safe_decimal (dget data ''electricity_price_per_kwh'') = Some ep \<and>
     Some (annual_fuel_cost r) =
       (if coeff fc \<noteq> 0 \<and> coeff gp \<noteq> 0
        then do { hundreds \<leftarrow> divide_dec mileage (Decimal False 100 0);
                  liters \<leftarrow> mul hundreds fc;
                  cost \<leftarrow> mul liters gp;
                  q2 cost }
        else Some (Decimal False 0 0)) \<and>
     Some (annual_electric_cost r) =
       (if coeff ec \<noteq> 0 \<and> coeff ep \<noteq> 0
        then do { hundreds \<leftarrow> divide_dec mileage (Decimal False 100 0);
                  kwh \<leftarrow> mul hundreds ec;
                  cost \<leftarrow> mul kwh ep;
                  q2 cost }
        else Some (Decimal False 0 0))"
  proof (cases rule: estimate_car_cost_trace)
    case (trace years_value ownership_years purchase_price incentives tax_rate_percent tax_rate net_price raw_tax tax_amount acquisition_total acq_breakdown annual_mileage fuel_consumption electricity_consumption gas_price electricity_price fuel_cost electric_cost insurance maintenance registration parking other energy s2 s3 s4 s5 annual_recurring raw_recurring recurring_total charging_installation residual_value t1 t2 raw_total total monthly b_acquisition energy2 b_energy m_insurance b_insurance m_maintenance b_maintenance m_registration b_registration m_parking b_parking m_other b_other b_charging b_residual annual_recurring_q)
    have r: "annual_fuel_cost r = fuel_cost" "annual_electric_cost r = electric_cost"
      by (simp_all add: trace(54))
    show ?thesis
      unfolding r
      by (intro exI[of _ annual_mileage] exI[of _ fuel_consumption] exI[of _ gas_price]
            exI[of _ electricity_consumption] exI[of _ electricity_price] conjI)
         (simp_all only: trace(11) trace(12) trace(14) trace(13) trace(15) trace(16) trace(17))
  qed
qed

text \<open>
  In the financed example (15000 km a year, 7.50 l/100 km, 1.899 a liter, no electric
  fields, and a fuel type of "electric" put in) the annual fuel cost is 2136.38 and the
  annual electric cost is zero.
\<close>

theorem annual_energy_costs_witness:
  "map_option (\<lambda>r. (annual_fuel_cost r, annual_electric_cost r))
     (estimate_car_cost power_rounded (finance_example(''fuel_type'' := Some (PStr ''electric''))))
   = Some (Decimal False 213638 (- 2), Decimal False 0 0)"
proof -
  define r where "r = the (estimate_car_cost power_rounded finance_example)"
  have e: "estimate_car_cost power_rounded finance_example = Some r"
    by (simp add: r_def eval_finance_example)
  have "estimate_car_cost power_rounded (finance_example(''fuel_type'' := Some (PStr ''electric'')))
          = Some r"
    using annual_energy_costs[OF e] by blast
  then show ?thesis
    by (simp add: r_def eval_finance_example)
qed

section \<open>The acquisition total: claims\<close>

lemma acquisition_finance:
  assumes "acquisition pw data tb ta tr = Some (acq, ab)"
    and "dget data ''purchase_type'' = PStr ''finance''"
  shows "\<exists>down net_principal financed apr term_months sched.
     safe_decimal (dget data ''finance_down_payment'') = Some down \<and>
     sub tb down = Some net_principal \<and>
     add (dec_max net_principal (Decimal False 0 0)) ta = Some financed \<and>
     safe_decimal (dget data ''finance_interest_rate'') = Some apr \<and>
     py_int (dget data ''finance_term_months'') = Some term_months \<and>
     calculate_finance_schedule pw financed apr term_months = Some sched \<and>
     add (total_paid sched) down = Some acq \<and>
     ab = [''Down payment'' \<mapsto> down, ''Financed total'' \<mapsto> total_paid sched,
           ''Taxes'' \<mapsto> ta]"
  using assms by (auto simp: acquisition_def Let_def bind_eq_Some_conv)

lemma acquisition_lease:
  assumes "acquisition pw data tb ta tr = Some (acq, ab)"
    and "dget data ''purchase_type'' = PStr ''lease''"
  shows "\<exists>term_months payment drive_off payments lease_total raw_tax tax_on_lease.
     py_int (dget data ''lease_term_months'') = Some term_months \<and>
     safe_decimal (dget data ''lease_monthly_payment'') = Some payment \<and>
     safe_decimal (dget data ''lease_drive_off_cost'') = Some drive_off \<and>
     mul payment (of_int_dec term_months) = Some payments \<and>
     add payments drive_off = Some lease_total \<and>
     mul lease_total tr = Some raw_tax \<and>
     q2 raw_tax = Some tax_on_lease \<and>
     add lease_total tax_on_lease = Some acq \<and>
     ab = [''Lease payments'' \<mapsto> payments, ''Drive-off'' \<mapsto> drive_off,
           ''Lease taxes'' \<mapsto> tax_on_lease]"
  using assms by (auto simp: acquisition_def Let_def bind_eq_Some_conv)

lemma acquisition_cash:
  assumes "acquisition pw data tb ta tr = Some (acq, ab)"
    and "dget data ''purchase_type'' \<noteq> PStr ''finance''"
    and "dget data ''purchase_type'' \<noteq> PStr ''lease''"
  shows "add tb ta = Some acq \<and> ab = [''Upfront payment'' \<mapsto> acq]"
  using assms by (auto simp: acquisition_def Let_def bind_eq_Some_conv split: if_splits)

text \<open>
  Claim C4. For every input whose purchase type is "finance" and for which the engine
  returns: the principal is \<open>max(taxable_base - down_payment, 0)\<close>, the loan scheduler runs
  on the principal plus the tax amount, the interest rate and the term, the acquisition
  total is the scheduled total paid plus the down payment (the "Acquisition" entry is its
  rounding), and the sub-breakdown has exactly the keys "Down payment", "Financed total"
  and "Taxes".
\<close>

theorem finance_acquisition:
  assumes run: "estimate_car_cost pw data = Some r"
    and fin: "dget data ''purchase_type'' = PStr ''finance''"
  shows "\<exists>price incentives pct rate net raw_tax tax_amount down net_principal financed apr
           term_months sched acq.
     safe_decimal (dget data ''car_purchase_price'') = Some price \<and>
     safe_decimal (dget data ''incentives_rebates'') = Some incentives \<and>
     safe_decimal (dget data ''local_tax_rate'') = Some pct \<and>
     divide_dec pct (Decimal False 100 0) = Some rate \<and>
     sub price incentives = Some net \<and>
     mul (dec_max net (Decimal False 0 0)) rate = Some raw_tax \<and>
     q2 raw_tax = Some tax_amount \<and>
     safe_decimal (dget data ''finance_down_payment'') = Some down \<and>
     sub (dec_max net (Decimal False 0 0)) down = Some net_principal \<and>
     add (dec_max net_principal (Decimal False 0 0)) tax_amount = Some financed \<and>
     safe_decimal (dget data ''finance_interest_rate'') = Some apr \<and>
     py_int (dget data ''finance_term_months'') = Some term_months \<and>
     calculate_finance_schedule pw financed apr term_months = Some sched \<and>
     add (total_paid sched) down = Some acq \<and>
     acquisition_breakdown r =
       [''Down payment'' \<mapsto> down, ''Financed total'' \<mapsto> total_paid sched,
        ''Taxes'' \<mapsto> tax_amount] \<and>
     dom (acquisition_breakdown r) = {''Down payment'', ''Financed total'', ''Taxes''} \<and>
     entry_is (breakdown r) ''Acquisition'' (q2 acq)"
  using run
proof (cases rule: estimate_car_cost_trace)
  case (trace years_value ownership_years purchase_price incentives tax_rate_percent tax_rate net_price raw_tax tax_amount acquisition_total acq_breakdown annual_mileage fuel_consumption electricity_consumption gas_price electricity_price fuel_cost electric_cost insurance maintenance registration parking other energy s2 s3 s4 s5 annual_recurring raw_recurring recurring_total charging_installation residual_value t1 t2 raw_total total monthly b_acquisition energy2 b_energy m_insurance b_insurance m_maintenance b_maintenance m_registration b_registration m_parking b_parking m_other b_other b_charging b_residual annual_recurring_q)
  from acquisition_finance[OF trace(10) fin]
  obtain down net_principal financed apr term_months sched where a:
    "safe_decimal (dget data ''finance_down_payment'') = Some down"
    "sub (dec_max net_price (Decimal False 0 0)) down = Some net_principal"
    "add (dec_max net_principal (Decimal False 0 0)) tax_amount = Some financed"
    "safe_decimal (dget data ''finance_interest_rate'') = Some apr"
    "py_int (dget data ''finance_term_months'') = Some term_months"
    "calculate_finance_schedule pw financed apr term_months = Some sched"
    "add (total_paid sched) down = Some acquisition_total"
    "acq_breakdown =
       [''Down payment'' \<mapsto> down, ''Financed total'' \<mapsto> total_paid sched,
        ''Taxes'' \<mapsto> tax_amount]"
    by blast
  have b: "acquisition_breakdown r = acq_breakdown"
    "breakdown r ''Acquisition'' = Some b_acquisition"
    by (simp_all add: trace(54))
  have d: "dom acq_breakdown = {''Down payment'', ''Financed total'', ''Taxes''}"
    unfolding a(8) by auto
  have e: "entry_is (breakdown r) ''Acquisition'' (q2 acquisition_total)"
    by (simp add: entry_is_def b trace(38))
  show ?thesis
    unfolding b(1)
    using trace(3) trace(4) trace(5) trace(6) trace(7) trace(8) trace(9) a d e by blast
qed

text \<open>
  In the financed example: 2000.00 down, 19138.03 paid on the loan, 950.00 of tax, and an
  acquisition total of 21138.03.
\<close>

theorem finance_acquisition_witness:
  "dget finance_example ''purchase_type'' = PStr ''finance'' \<and>
   map_option (\<lambda>r. (dom (acquisition_breakdown r) = {''Down payment'', ''Financed total'', ''Taxes''},
                     acquisition_breakdown r ''Down payment'',
                     acquisition_breakdown r ''Financed total'',
                     acquisition_breakdown r ''Taxes'',
                     breakdown r ''Acquisition''))
     (estimate_car_cost power_rounded finance_example)
   = Some (True, Some (Decimal False 200000 (- 2)), Some (Decimal False 1913803 (- 2)), Some (Decimal False 95000 (- 2)), Some (Decimal False 2113803 (- 2)))"
proof -
  define r where "r = the (estimate_car_cost power_rounded finance_example)"
  have e: "estimate_car_cost power_rounded finance_example = Some r"
    by (simp add: r_def eval_finance_example)
  have t: "dget finance_example ''purchase_type'' = PStr ''finance''"
    by (simp add: finance_example_def dget_def dget_default_def)
  have "dom (acquisition_breakdown r) = {''Down payment'', ''Financed total'', ''Taxes''}"
    using finance_acquisition[OF e t] by blast
  moreover have "acquisition_breakdown r ''Down payment'' = Some (Decimal False 200000 (- 2))"
    "acquisition_breakdown r ''Financed total'' = Some (Decimal False 1913803 (- 2))"
    "acquisition_breakdown r ''Taxes'' = Some (Decimal False 95000 (- 2))"
    "breakdown r ''Acquisition'' = Some (Decimal False 2113803 (- 2))"
    by (simp_all add: r_def eval_finance_example)
  ultimately show ?thesis
    by (simp add: e t)
qed

text \<open>
  Claim C5. For every input whose purchase type is "lease" and for which the engine
  returns: the lease total is the monthly payment times the term plus the drive-off cost,
  the tax on the lease is the lease total times the tax rate rounded half-up to two digits,
  the acquisition total is their sum, and the sub-breakdown has the keys "Lease payments",
  "Drive-off" and "Lease taxes". With a monthly payment of 300, a term of 36, a drive-off
  cost of 1000 and a tax rate of 0 percent the lease total is 11800, the tax on the lease
  0.00 and the acquisition total 11800.00.
\<close>

theorem lease_acquisition:
  "(\<forall>pw data r.
      estimate_car_cost pw data = Some r \<longrightarrow> dget data ''purchase_type'' = PStr ''lease'' \<longrightarrow>
      (\<exists>pct rate term_months payment drive_off payments lease_total raw_tax tax_on_lease acq.
        safe_decimal (dget data ''local_tax_rate'') = Some pct \<and>
        divide_dec pct (Decimal False 100 0) = Some rate \<and>
        py_int (dget data ''lease_term_months'') = Some term_months \<and>
        safe_decimal (dget data ''lease_monthly_payment'') = Some payment \<and>
        safe_decimal (dget data ''lease_drive_off_cost'') = Some drive_off \<and>
        mul payment (of_int_dec term_months) = Some payments \<and>
        add payments drive_off = Some lease_total \<and>
        mul lease_total rate = Some raw_tax \<and>
        q2 raw_tax = Some tax_on_lease \<and>
        add lease_total tax_on_lease = Some acq \<and>
        acquisition_breakdown r =
          [''Lease payments'' \<mapsto> payments, ''Drive-off'' \<mapsto> drive_off,
           ''Lease taxes'' \<mapsto> tax_on_lease] \<and>
        dom (acquisition_breakdown r) = {''Lease payments'', ''Drive-off'', ''Lease taxes''} \<and>
        entry_is (breakdown r) ''Acquisition'' (q2 acq)))
   \<and> mul (Decimal False 300 0) (of_int_dec 36) \<bind> (\<lambda>payments. add payments (Decimal False 1000 0))
       = Some (Decimal False 11800 0)
   \<and> dec_eq (Decimal False 11800 0) (Decimal False 1180000 (- 2))
   \<and> mul (Decimal False 11800 0) (Decimal False 0 0) \<bind> q2 = Some (Decimal False 0 (- 2))
   \<and> add (Decimal False 11800 0) (Decimal False 0 (- 2)) = Some (Decimal False 1180000 (- 2))
   \<and> map_option (\<lambda>r. (acquisition_breakdown r ''Lease payments'',
                        acquisition_breakdown r ''Drive-off'',
                        acquisition_breakdown r ''Lease taxes'',
                        breakdown r ''Acquisition''))
        (estimate_car_cost power_rounded lease_example)
      = Some (Some (Decimal False 10800 0), Some (Decimal False 1000 0), Some (Decimal False 0 (- 2)),
              Some (Decimal False 1180000 (- 2)))"
proof (intro conjI allI impI)
  fix pw data r
  assume run: "estimate_car_cost pw data = Some r"
    and lease: "dget data ''purchase_type'' = PStr ''lease''"
  from run show "\<exists>pct rate term_months payment drive_off payments lease_total raw_tax tax_on_lease acq.
        safe_decimal (dget data ''local_tax_rate'') = Some pct \<and>
        divide_dec pct (Decimal False 100 0) = Some rate \<and>
        py_int (dget data ''lease_term_months'') = Some term_months \<and>
        safe_decimal (dget data ''lease_monthly_payment'') = Some payment \<and>
        safe_decimal (dget data ''lease_drive_off_cost'') = Some drive_off \<and>
        mul payment (of_int_dec term_months) = Some payments \<and>
        add payments drive_off = Some lease_total \<and>
        mul lease_total rate = Some raw_tax \<and>
        q2 raw_tax = Some tax_on_lease \<and>
        add lease_total tax_on_lease = Some acq \<and>
        acquisition_breakdown r =
          [''Lease payments'' \<mapsto> payments, ''Drive-off'' \<mapsto> drive_off,
           ''Lease taxes'' \<mapsto> tax_on_lease] \<and>
        dom (acquisition_breakdown r) = {''Lease payments'', ''Drive-off'', ''Lease taxes''} \<and>
        entry_is (breakdown r) ''Acquisition'' (q2 acq)"
  proof (cases rule: estimate_car_cost_trace)
    case (trace years_value ownership_years purchase_price incentives tax_rate_percent tax_rate net_price raw_tax tax_amount acquisition_total acq_breakdown annual_mileage fuel_consumption electricity_consumption gas_price electricity_price fuel_cost electric_cost insurance maintenance registration parking other energy s2 s3 s4 s5 annual_recurring raw_recurring recurring_total charging_installation residual_value t1 t2 raw_total total monthly b_acquisition energy2 b_energy m_insurance b_insurance m_maintenance b_maintenance m_registration b_registration m_parking b_parking m_other b_other b_charging b_residual annual_recurring_q)
    from acquisition_lease[OF trace(10) lease]
    obtain term_months payment drive_off payments lease_total raw_lease_tax tax_on_lease
      where a:
      "py_int (dget data ''lease_term_months'') = Some term_months"
      "safe_decimal (dget data ''lease_monthly_payment'') = Some payment"
      "safe_decimal (dget data ''lease_drive_off_cost'') = Some drive_off"
      "mul payment (of_int_dec term_months) = Some payments"
      "add payments drive_off = Some lease_total"
      "mul lease_total tax_rate = Some raw_lease_tax"
      "q2 raw_lease_tax = Some tax_on_lease"
      "add lease_total tax_on_lease = Some acquisition_total"
      "acq_breakdown =
         [''Lease payments'' \<mapsto> payments, ''Drive-off'' \<mapsto> drive_off,
          ''Lease taxes'' \<mapsto> tax_on_lease]"
      by blast
    have b: "acquisition_breakdown r = acq_breakdown"
      "breakdown r ''Acquisition'' = Some b_acquisition"
      by (simp_all add: trace(54))
    have d: "dom acq_breakdown = {''Lease payments'', ''Drive-off'', ''Lease taxes''}"
      unfolding a(9) by auto
    have e: "entry_is (breakdown r) ''Acquisition'' (q2 acquisition_total)"
      by (simp add: entry_is_def b trace(38))
    show ?thesis
      unfolding b(1)
      using trace(5) trace(6) a d e by blast
  qed
qed (simp_all add: eval_lease_example dec_eval)

theorem lease_acquisition_witness:
  "dget lease_example ''purchase_type'' = PStr ''lease'' \<and>
   map_option (\<lambda>r. dom (acquisition_breakdown r) = {''Lease payments'', ''Drive-off'', ''Lease taxes''})
     (estimate_car_cost power_rounded lease_example) = Some True"
proof -
  define r where "r = the (estimate_car_cost power_rounded lease_example)"
  have e: "estimate_car_cost power_rounded lease_example = Some r"
    by (simp add: r_def eval_lease_example)
  have t: "dget lease_example ''purchase_type'' = PStr ''lease''"
    by (simp add: lease_example_def dget_def dget_default_def)
  have "dom (acquisition_breakdown r) = {''Lease payments'', ''Drive-off'', ''Lease taxes''}"
    using lease_acquisition e t by blast
  then show ?thesis
    by (simp add: e t)
qed

text \<open>
  Claim C6. For every input whose purchase type is "cash", and likewise for every purchase
  type that is neither "finance" nor "lease", and for which the engine returns: the taxable
  base is \<open>max(purchase_price - incentives, 0)\<close>, the tax amount is the taxable base times
  the tax rate percent over 100, rounded half-up to two digits, and the acquisition total
  is their sum, listed as "Upfront payment". With a price of 20000, no incentives, a tax of
  10 percent, no recurring costs and one year, the tax amount is 2000.00, the acquisition
  total 22000.00 and the total cost 22000.00, under the type "cash" and under an unknown
  type alike.
\<close>

theorem cash_acquisition:
  "(\<forall>pw data r.
      estimate_car_cost pw data = Some r \<longrightarrow>
      dget data ''purchase_type'' \<noteq> PStr ''finance'' \<longrightarrow>
      dget data ''purchase_type'' \<noteq> PStr ''lease'' \<longrightarrow>
      (\<exists>price incentives pct rate net raw_tax tax_amount acq.
        safe_decimal (dget data ''car_purchase_price'') = Some price \<and>
        safe_decimal (dget data ''incentives_rebates'') = Some incentives \<and>
        safe_decimal (dget data ''local_tax_rate'') = Some pct \<and>
        divide_dec pct (Decimal False 100 0) = Some rate \<and>
        sub price incentives = Some net \<and>
        mul (dec_max net (Decimal False 0 0)) rate = Some raw_tax \<and>
        q2 raw_tax = Some tax_amount \<and>
        add (dec_max net (Decimal False 0 0)) tax_amount = Some acq \<and>
        acquisition_breakdown r = [''Upfront payment'' \<mapsto> acq] \<and>
        entry_is (breakdown r) ''Acquisition'' (q2 acq)))
   \<and> sub (Decimal False 20000 0) (Decimal False 0 0) = Some (Decimal False 20000 0)
   \<and> dec_max (Decimal False 20000 0) (Decimal False 0 0) = Decimal False 20000 0
   \<and> divide_dec (Decimal False 10 0) (Decimal False 100 0) = Some (Decimal False 1 (- 1))
   \<and> mul (Decimal False 20000 0) (Decimal False 1 (- 1)) \<bind> q2 = Some (Decimal False 200000 (- 2))
   \<and> add (Decimal False 20000 0) (Decimal False 200000 (- 2)) = Some (Decimal False 2200000 (- 2))
   \<and> map_option (\<lambda>r. (acquisition_breakdown r ''Upfront payment'', breakdown r ''Acquisition'',
                        total_cost r))
        (estimate_car_cost power_rounded cash_example)
      = Some (Some (Decimal False 2200000 (- 2)), Some (Decimal False 2200000 (- 2)), Decimal False 2200000 (- 2))
   \<and> estimate_car_cost power_rounded barter_example
      = estimate_car_cost power_rounded cash_example"
proof (intro conjI allI impI)
  fix pw data r
  assume run: "estimate_car_cost pw data = Some r"
    and nf: "dget data ''purchase_type'' \<noteq> PStr ''finance''"
    and nl: "dget data ''purchase_type'' \<noteq> PStr ''lease''"
  from run show "\<exists>price incentives pct rate net raw_tax tax_amount acq.
        safe_decimal (dget data ''car_purchase_price'') = Some price \<and>
        safe_decimal (dget data ''incentives_rebates'') = Some incentives \<and>
        safe_decimal (dget data ''local_tax_rate'') = Some pct \<and>
        divide_dec pct (Decimal False 100 0) = Some rate \<and>
        sub price incentives = Some net \<and>
        mul (dec_max net (Decimal False 0 0)) rate = Some raw_tax \<and>
        q2 raw_tax = Some tax_amount \<and>
        add (dec_max net (Decimal False 0 0)) tax_amount = Some acq \<and>
        acquisition_breakdown r = [''Upfront payment'' \<mapsto> acq] \<and>
        entry_is (breakdown r) ''Acquisition'' (q2 acq)"
  proof (cases rule: estimate_car_cost_trace)
    case (trace years_value ownership_years purchase_price incentives tax_rate_percent tax_rate net_price raw_tax tax_amount acquisition_total acq_breakdown annual_mileage fuel_consumption electricity_consumption gas_price electricity_price fuel_cost electric_cost insurance maintenance registration parking other energy s2 s3 s4 s5 annual_recurring raw_recurring recurring_total charging_installation residual_value t1 t2 raw_total total monthly b_acquisition energy2 b_energy m_insurance b_insurance m_maintenance b_maintenance m_registration b_registration m_parking b_parking m_other b_other b_charging b_residual annual_recurring_q)
    from acquisition_cash[OF trace(10) nf nl]
    have a: "add (dec_max net_price (Decimal False 0 0)) tax_amount = Some acquisition_total"
      "acq_breakdown = [''Upfront payment'' \<mapsto> acquisition_total]"
      by blast+
    have b: "acquisition_breakdown r = acq_breakdown"
      "breakdown r ''Acquisition'' = Some b_acquisition"
      by (simp_all add: trace(54))
    have e: "entry_is (breakdown r) ''Acquisition'' (q2 acquisition_total)"
      by (simp add: entry_is_def b trace(38))
    show ?thesis
      unfolding b(1)
      using trace(3) trace(4) trace(5) trace(6) trace(7) trace(8) trace(9) a e by blast
  qed
qed (simp_all add: eval_cash_example eval_barter_example dec_eval strip_zeros_hints)

theorem cash_acquisition_witness:
  "dget barter_example ''purchase_type'' \<noteq> PStr ''finance'' \<and>
   dget barter_example ''purchase_type'' \<noteq> PStr ''lease'' \<and>
   map_option (\<lambda>r. entry_is (breakdown r) ''Acquisition'' (Some (Decimal False 2200000 (- 2))))
     (estimate_car_cost power_rounded barter_example) = Some True"
proof -
  define r where "r = the (estimate_car_cost power_rounded barter_example)"
  have e: "estimate_car_cost power_rounded barter_example = Some r"
    by (simp add: r_def eval_barter_example)
  have t: "dget barter_example ''purchase_type'' \<noteq> PStr ''finance''"
    "dget barter_example ''purchase_type'' \<noteq> PStr ''lease''"
    by (simp_all add: barter_example_def dget_def dget_default_def)
  from cash_acquisition e t obtain acq where
    "acquisition_breakdown r = [''Upfront payment'' \<mapsto> acq]"
    "entry_is (breakdown r) ''Acquisition'' (q2 acq)"
    by blast
  moreover have "acquisition_breakdown r ''Upfront payment'' = Some (Decimal False 2200000 (- 2))"
    by (simp add: r_def eval_barter_example)
  moreover have "q2 (Decimal False 2200000 (- 2)) = Some (Decimal False 2200000 (- 2))"
    by (simp add: dec_eval)
  ultimately have "entry_is (breakdown r) ''Acquisition'' (Some (Decimal False 2200000 (- 2)))"
    by (simp add: fun_upd_def split: if_splits)
  then show ?thesis
    by (simp add: e t)
qed

end
